theory Spec2Isabelle
  imports Complex_Main "HOL-Library.Product_Lexorder"
begin

section \<open>Payroll service: data model\<close>

text \<open>
  The development embeds the payroll routes of \<^verbatim>\<open>server/routes/payroll-service.js\<close>,
  the masking utility \<^verbatim>\<open>server/utils/dataMasking.js\<close> and the SSO middleware
  (\<^verbatim>\<open>verifyHrSsoToken\<close>) as HOL functions over explicit tables.

  Conventions.
  \<^item> A table of the \<^verbatim>\<open>payroll\<close> schema is the list of its rows; a row is a record with the
    columns of the \<^verbatim>\<open>CREATE TABLE\<close> statement that the modelled statements read or write.
    A nullable column has an option type, \<open>None\<close> being SQL \<^verbatim>\<open>NULL\<close>.
  \<^item> A JavaScript number is an exact rational: the arithmetic of the routes is modelled
    without IEEE rounding. \<^verbatim>\<open>Number(null)\<close> is \<open>0\<close>.
  \<^item> A JavaScript string is a \<open>string\<close> of ASCII characters.
  \<^item> UUIDs and free text are strings.
\<close>

type_synonym uuid = string

record pg_date =
  d_year :: int
  d_month :: int
  d_day :: int

definition date_le :: "pg_date \<Rightarrow> pg_date \<Rightarrow> bool" where
  "date_le a b \<longleftrightarrow>
     d_year a < d_year b \<or>
     (d_year a = d_year b \<and> (d_month a < d_month b \<or> (d_month a = d_month b \<and> d_day a \<le> d_day b)))"

text \<open>\<^verbatim>\<open>payroll.leave_requests\<close> and \<^verbatim>\<open>payroll.attendance_records\<close>.\<close>

record leave_request =
  lr_tenant_id :: uuid
  lr_employee_id :: uuid
  lr_leave_type :: string
  lr_start_date :: pg_date
  lr_end_date :: pg_date
  lr_days :: rat
  lr_status :: "string option"

record attendance_record =
  ar_tenant_id :: uuid
  ar_employee_id :: uuid
  ar_date :: pg_date
  ar_status :: string

section \<open>calculateLopAndPaidDays\<close>

definition is_leap_year :: "int \<Rightarrow> bool" where
  "is_leap_year y \<longleftrightarrow> y mod 4 = 0 \<and> (y mod 100 \<noteq> 0 \<or> y mod 400 = 0)"

text \<open>Length of the month with index \<open>mi\<close> (0 is January) of the Gregorian year \<open>y\<close>.\<close>

definition days_in_month_index :: "int \<Rightarrow> int \<Rightarrow> int" where
  "days_in_month_index y mi =
     (if mi = 1 then (if is_leap_year y then 29 else 28)
      else if mi = 3 \<or> mi = 5 \<or> mi = 8 \<or> mi = 10 then 30
      else 31)"


definition js_Date_last_day :: "int \<Rightarrow> int \<Rightarrow> int" where
  "js_Date_last_day year month =
     (let y0 = (if 0 \<le> year \<and> year \<le> 99 then 1900 + year else year);
          m = month - 1
      in days_in_month_index (y0 + m div 12) (m mod 12))"

text \<open>The \<^verbatim>\<open>WHERE\<close> clause of the leave statement, with \<open>$5\<close> the first day of the month.\<close>

definition leave_row_selected :: "uuid \<Rightarrow> uuid \<Rightarrow> int \<Rightarrow> int \<Rightarrow> leave_request \<Rightarrow> bool" where
  "leave_row_selected tenantId employeeId month year r \<longleftrightarrow>
     lr_tenant_id r = tenantId \<and>
     lr_employee_id r = employeeId \<and>
     lr_status r = Some ''approved'' \<and>
     ((d_year (lr_start_date r) = year \<and> d_month (lr_start_date r) = month) \<or>
      (d_year (lr_end_date r) = year \<and> d_month (lr_end_date r) = month) \<or>
      (date_le (lr_start_date r) \<lparr>d_year = year, d_month = month, d_day = 1\<rparr> \<and>
       date_le \<lparr>d_year = year, d_month = month, d_day = 1\<rparr> (lr_end_date r)))"

text \<open>
  \<^verbatim>\<open>COALESCE(SUM(CASE WHEN leave_type = 'loss_of_pay' THEN days ELSE 0 END), 0)\<close> over the
  selected rows.
\<close>

definition leave_lop_query :: "leave_request list \<Rightarrow> uuid \<Rightarrow> uuid \<Rightarrow> int \<Rightarrow> int \<Rightarrow> rat" where
  "leave_lop_query leave_requests tenantId employeeId month year =
     sum_list (map (\<lambda>r. if lr_leave_type r = ''loss_of_pay'' then lr_days r else 0)
                   (filter (leave_row_selected tenantId employeeId month year) leave_requests))"

text \<open>\<^verbatim>\<open>COUNT(*)\<close> of the attendance rows of the month with status \<^verbatim>\<open>'lop'\<close>.\<close>

definition attendance_row_selected :: "uuid \<Rightarrow> uuid \<Rightarrow> int \<Rightarrow> int \<Rightarrow> attendance_record \<Rightarrow> bool" where
  "attendance_row_selected tenantId employeeId month year a \<longleftrightarrow>
     ar_tenant_id a = tenantId \<and>
     ar_employee_id a = employeeId \<and>
     ar_status a = ''lop'' \<and>
     d_year (ar_date a) = year \<and>
     d_month (ar_date a) = month"

definition attendance_lop_query :: "attendance_record list \<Rightarrow> uuid \<Rightarrow> uuid \<Rightarrow> int \<Rightarrow> int \<Rightarrow> nat" where
  "attendance_lop_query attendance_records tenantId employeeId month year =
     length (filter (attendance_row_selected tenantId employeeId month year) attendance_records)"

record lop_result =
  lopDays :: rat
  paidDays :: rat
  totalWorkingDays :: rat

definition calculateLopAndPaidDays ::
  "leave_request list \<Rightarrow> attendance_record list \<Rightarrow> uuid \<Rightarrow> uuid \<Rightarrow> int \<Rightarrow> int \<Rightarrow> lop_result" where
  "calculateLopAndPaidDays leave_requests attendance_records tenantId employeeId month year =
     (let daysInMonth = js_Date_last_day year month;
          totalWorkingDays = of_int daysInMonth;
          leaveLopDays = leave_lop_query leave_requests tenantId employeeId month year;
          attendanceLopDays = of_nat (attendance_lop_query attendance_records tenantId employeeId month year);
          lopDays = leaveLopDays + attendanceLopDays;
          paidDays = max 0 (totalWorkingDays - lopDays)
      in \<lparr>lopDays = lopDays, paidDays = paidDays, totalWorkingDays = totalWorkingDays\<rparr>)"

subsection \<open>The claim's own words, for comparison\<close>








section \<open>Payroll preview: GET /payroll-cycles/:cycleId/preview\<close>

datatype payroll_status = Draft | Approved | Processing | Completed | Failed | PendingApproval

text \<open>\<^verbatim>\<open>payroll.payroll_cycles\<close> (the timestamp columns are left out).\<close>

record payroll_cycle =
  pc_id :: uuid
  pc_tenant_id :: uuid
  pc_month :: int
  pc_year :: int
  pc_payday :: "int option"
  pc_status :: "payroll_status option"
  pc_total_employees :: "int option"
  pc_total_amount :: "rat option"
  pc_approved_by :: "uuid option"
  pc_created_by :: "uuid option"

record payroll_settings =
  ps_tenant_id :: uuid
  ps_pf_rate :: "rat option"
  ps_esi_rate :: "rat option"
  ps_pt_rate :: "rat option"
  ps_tds_threshold :: "rat option"

text \<open>The columns of \<^verbatim>\<open>payroll.employees\<close> that the routes read.\<close>

record employee =
  emp_id :: uuid
  emp_tenant_id :: uuid
  emp_employee_code :: string
  emp_full_name :: string
  emp_email :: string

record compensation_structure =
  cs_basic_salary :: rat
  cs_hra :: "rat option"
  cs_special_allowance :: "rat option"

record preview_item =
  pv_employee_id :: uuid
  pv_employee_code :: string
  pv_employee_name :: string
  pv_employee_email :: string
  pv_basic_salary :: rat
  pv_hra :: rat
  pv_special_allowance :: rat
  pv_gross_salary :: rat
  pv_pf_deduction :: rat
  pv_esi_deduction :: rat
  pv_tds_deduction :: rat
  pv_pt_deduction :: rat
  pv_deductions :: rat
  pv_net_salary :: rat
  pv_lop_days :: rat
  pv_paid_days :: rat
  pv_total_working_days :: rat

text \<open>\<^verbatim>\<open>Number(v)\<close> of a numeric column value, and \<^verbatim>\<open>a || b\<close> on numbers.\<close>

definition js_Number :: "rat option \<Rightarrow> rat" where
  "js_Number v = (case v of None \<Rightarrow> 0 | Some x \<Rightarrow> x)"

definition js_or_num :: "rat \<Rightarrow> rat \<Rightarrow> rat" where
  "js_or_num a b = (if a = 0 then b else a)"

text \<open>The settings object used when the tenant has no settings row.\<close>

definition default_settings :: "uuid \<Rightarrow> payroll_settings" where
  "default_settings tenantId =
     \<lparr>ps_tenant_id = tenantId, ps_pf_rate = Some 12, ps_esi_rate = Some (13 / 4),
      ps_pt_rate = Some 200, ps_tds_threshold = Some 250000\<rparr>"

text \<open>The body of the loop over the employees, after the compensation row is found.\<close>

definition preview_item_of ::
  "leave_request list \<Rightarrow> attendance_record list \<Rightarrow> uuid \<Rightarrow> payroll_cycle \<Rightarrow> payroll_settings \<Rightarrow>
   employee \<Rightarrow> compensation_structure \<Rightarrow> preview_item" where
  "preview_item_of leave_requests attendance_records tenantId cycle settings employee compensation =
     (let monthlyBasic = js_or_num (cs_basic_salary compensation) 0;
          monthlyHRA = js_or_num (js_Number (cs_hra compensation)) 0;
          monthlySA = js_or_num (js_Number (cs_special_allowance compensation)) 0;
          grossSalary = monthlyBasic + monthlyHRA + monthlySA;
          lop = calculateLopAndPaidDays leave_requests attendance_records tenantId (emp_id employee)
                  (pc_month cycle) (pc_year cycle);
          dailyRate = grossSalary / totalWorkingDays lop;
          adjustedGross = dailyRate * paidDays lop;
          adjustmentRatio = paidDays lop / totalWorkingDays lop;
          pfDeduction = (monthlyBasic * adjustmentRatio * js_Number (ps_pf_rate settings)) / 100;
          esiDeduction = (if adjustedGross \<le> 21000 then (adjustedGross * (3 / 4)) / 100 else 0);
          ptDeduction = js_or_num (js_Number (ps_pt_rate settings)) 200;
          annualIncome = adjustedGross * 12;
          tdsDeduction = (if annualIncome > js_Number (ps_tds_threshold settings)
                          then ((annualIncome - js_Number (ps_tds_threshold settings)) * 5) / 100 / 12
                          else 0);
          totalDeductions = pfDeduction + esiDeduction + ptDeduction + tdsDeduction;
          netSalary = adjustedGross - totalDeductions
      in \<lparr>pv_employee_id = emp_id employee,
          pv_employee_code = emp_employee_code employee,
          pv_employee_name = emp_full_name employee,
          pv_employee_email = emp_email employee,
          pv_basic_salary = monthlyBasic * adjustmentRatio,
          pv_hra = monthlyHRA * adjustmentRatio,
          pv_special_allowance = monthlySA * adjustmentRatio,
          pv_gross_salary = adjustedGross,
          pv_pf_deduction = pfDeduction,
          pv_esi_deduction = esiDeduction,
          pv_tds_deduction = tdsDeduction,
          pv_pt_deduction = ptDeduction,
          pv_deductions = totalDeductions,
          pv_net_salary = netSalary,
          pv_lop_days = lopDays lop,
          pv_paid_days = paidDays lop,
          pv_total_working_days = totalWorkingDays lop\<rparr>)"

text \<open>
  The loop. \<open>employeesResult\<close> is the result of the employee statement and
  \<open>compResult e\<close> the result of the compensation statement for employee \<open>e\<close> (at most one
  row, the latest one effective by the month's end); an employee without a row is skipped.
\<close>

fun preview_loop ::
  "leave_request list \<Rightarrow> attendance_record list \<Rightarrow> uuid \<Rightarrow> payroll_cycle \<Rightarrow> payroll_settings \<Rightarrow>
   (uuid \<Rightarrow> compensation_structure list) \<Rightarrow> employee list \<Rightarrow> preview_item list" where
  "preview_loop lrs ars tenantId cycle settings compResult [] = []"
| "preview_loop lrs ars tenantId cycle settings compResult (employee # rest) =
     (case compResult (emp_id employee) of
        [] \<Rightarrow> preview_loop lrs ars tenantId cycle settings compResult rest
      | compensation # _ \<Rightarrow>
          preview_item_of lrs ars tenantId cycle settings employee compensation
            # preview_loop lrs ars tenantId cycle settings compResult rest)"

text \<open>The settings in force for a tenant: the first row of its settings, or the default object.\<close>

definition settings_for :: "payroll_settings list \<Rightarrow> uuid \<Rightarrow> payroll_settings" where
  "settings_for settings_rows tenantId =
     (case filter (\<lambda>s. ps_tenant_id s = tenantId) settings_rows of
        [] \<Rightarrow> default_settings tenantId
      | s # _ \<Rightarrow> s)"

text \<open>An error response: the HTTP status and the \<^verbatim>\<open>error\<close> string of the JSON body.\<close>

type_synonym http_error = "nat \<times> string"

record preview_db =
  pdb_cycles :: "payroll_cycle list"
  pdb_settings :: "payroll_settings list"
  pdb_leave_requests :: "leave_request list"
  pdb_attendance_records :: "attendance_record list"

definition preview_route ::
  "preview_db \<Rightarrow> employee list \<Rightarrow> (uuid \<Rightarrow> compensation_structure list) \<Rightarrow> uuid \<Rightarrow> uuid \<Rightarrow>
   http_error + preview_item list" where
  "preview_route db employeesResult compResult cycleId tenantId =
     (case filter (\<lambda>c. pc_id c = cycleId \<and> pc_tenant_id c = tenantId) (pdb_cycles db) of
        [] \<Rightarrow> Inl (404, ''Payroll cycle not found'')
      | cycle # _ \<Rightarrow>
          Inr (preview_loop (pdb_leave_requests db) (pdb_attendance_records db) tenantId cycle
                 (settings_for (pdb_settings db) tenantId) compResult employeesResult))"

section \<open>Payroll cycle lifecycle\<close>

text \<open>
  Modelled from the spec: \<^verbatim>\<open>auditPayroll\<close> of \<^verbatim>\<open>utils/auditLog.js\<close>, which is not
  among the sources. The audit log is an append-only record of payroll actions, and a
  failure to write it never blocks the action: the call appends an entry and returns.
\<close>

record audit_entry =
  au_actor_id :: uuid
  au_tenant_id :: uuid
  au_action :: string
  au_entity_type :: string
  au_entity_id :: uuid

record payroll_db =
  cycles :: "payroll_cycle list"
  audit_logs :: "audit_entry list"

definition auditPayroll :: "audit_entry \<Rightarrow> payroll_db \<Rightarrow> payroll_db" where
  "auditPayroll entry db = db\<lparr>audit_logs := audit_logs db @ [entry]\<rparr>"

text \<open>The label of a status value as \<^verbatim>\<open>${cycle.status}\<close> prints it.\<close>

fun status_label :: "payroll_status option \<Rightarrow> string" where
  "status_label None = ''null''"
| "status_label (Some Draft) = ''draft''"
| "status_label (Some Approved) = ''approved''"
| "status_label (Some Processing) = ''processing''"
| "status_label (Some Completed) = ''completed''"
| "status_label (Some Failed) = ''failed''"
| "status_label (Some PendingApproval) = ''pending_approval''"

text \<open>\<^verbatim>\<open>UPDATE payroll.payroll_cycles SET ... WHERE id = $1 AND tenant_id = $2\<close>.\<close>

definition update_cycles ::
  "(payroll_cycle \<Rightarrow> payroll_cycle) \<Rightarrow> uuid \<Rightarrow> uuid \<Rightarrow> payroll_db \<Rightarrow> payroll_db" where
  "update_cycles f cycleId tenantId db =
     db\<lparr>cycles := map (\<lambda>c. if pc_id c = cycleId \<and> pc_tenant_id c = tenantId then f c else c) (cycles db)\<rparr>"

text \<open>A success response: \<^verbatim>\<open>{ success: true, message }\<close>.\<close>

definition process_route :: "uuid \<Rightarrow> uuid \<Rightarrow> uuid \<Rightarrow> payroll_db \<Rightarrow> (http_error + string) \<times> payroll_db" where
  "process_route userId tenantId cycleId db =
     (case filter (\<lambda>c. pc_id c = cycleId \<and> pc_tenant_id c = tenantId) (cycles db) of
        [] \<Rightarrow> (Inl (404, ''Payroll cycle not found''), db)
      | cycle # _ \<Rightarrow>
          if pc_status cycle \<noteq> Some Approved then
            (Inl (400, ''Cannot process payroll. Current status is '' @ [CHR 0x27] @ status_label (pc_status cycle)
                       @ [CHR 0x27] @ ''. Only '' @ [CHR 0x27] @ ''approved'' @ [CHR 0x27]
                       @ '' payroll can be processed.''), db)
          else
            (Inr ''Payroll processing started'',
             auditPayroll \<lparr>au_actor_id = userId, au_tenant_id = tenantId,
                           au_action = ''payroll_cycle_processed'', au_entity_type = ''payroll_cycle'',
                           au_entity_id = cycleId\<rparr>
               (update_cycles (\<lambda>c. c\<lparr>pc_status := Some Processing\<rparr>) cycleId tenantId db)))"

definition submit_route :: "uuid \<Rightarrow> uuid \<Rightarrow> payroll_db \<Rightarrow> (http_error + string) \<times> payroll_db" where
  "submit_route tenantId cycleId db =
     (Inr ''Payroll submitted for approval'',
      update_cycles (\<lambda>c. c\<lparr>pc_status := Some PendingApproval\<rparr>) cycleId tenantId db)"

definition approve_route :: "uuid \<Rightarrow> uuid \<Rightarrow> uuid \<Rightarrow> payroll_db \<Rightarrow> (http_error + string) \<times> payroll_db" where
  "approve_route userId tenantId cycleId db =
     (Inr ''Payroll approved'',
      update_cycles (\<lambda>c. c\<lparr>pc_status := Some Approved, pc_approved_by := Some userId\<rparr>) cycleId tenantId db)"

definition reject_route :: "uuid \<Rightarrow> uuid \<Rightarrow> payroll_db \<Rightarrow> (http_error + string) \<times> payroll_db" where
  "reject_route tenantId cycleId db =
     (Inr ''Payroll rejected'',
      update_cycles (\<lambda>c. c\<lparr>pc_status := Some Draft\<rparr>) cycleId tenantId db)"

section \<open>Creating a cycle: POST /payroll-cycles\<close>







section \<open>Own payslips: GET /payslips\<close>






section \<open>Data masking\<close>

text \<open>
  JavaScript values. An object lives in a store and a value refers to it by its address,
  so that a copy and its original are told apart.
\<close>

datatype jsval = JUndefined | JNull | JBool bool | JNum rat | JNaN | JStr string | JRef nat

fun truthy :: "jsval \<Rightarrow> bool" where
  "truthy JUndefined = False"
| "truthy JNull = False"
| "truthy (JBool b) = b"
| "truthy (JNum x) = (x \<noteq> 0)"
| "truthy JNaN = False"
| "truthy (JStr s) = (s \<noteq> [])"
| "truthy (JRef a) = True"

text \<open>The character classes \<^verbatim>\<open>\d\<close> and \<^verbatim>\<open>\s\<close> and \<^verbatim>\<open>toUpperCase\<close>, on ASCII.\<close>

definition is_digit :: "char \<Rightarrow> bool" where
  "is_digit c \<longleftrightarrow> c \<in> set ''0123456789''"

definition is_space :: "char \<Rightarrow> bool" where
  "is_space c \<longleftrightarrow> c \<in> set [CHR 0x09, CHR 0x0A, CHR 0x0B, CHR 0x0C, CHR 0x0D, CHR 0x20]"

definition to_upper_char :: "char \<Rightarrow> char" where
  "to_upper_char c =
     (case map_of (zip ''abcdefghijklmnopqrstuvwxyz'' ''ABCDEFGHIJKLMNOPQRSTUVWXYZ'') c of
        None \<Rightarrow> c | Some u \<Rightarrow> u)"

definition toUpperCase :: "string \<Rightarrow> string" where
  "toUpperCase s = map to_upper_char s"

text \<open>\<^verbatim>\<open>s.slice(-4)\<close>: the last four characters, or all of a shorter string.\<close>

definition slice_last4 :: "string \<Rightarrow> string" where
  "slice_last4 s = drop (length s - 4) s"

fun maskBankAccount :: "jsval \<Rightarrow> jsval" where
  "maskBankAccount (JStr accountNumber) =
     (if accountNumber = [] then JNull
      else let cleaned = filter is_digit accountNumber
           in if length cleaned < 4 then JStr ''****''
              else JStr (''...-XX-'' @ slice_last4 cleaned))"
| "maskBankAccount _ = JNull"

fun maskPAN :: "jsval \<Rightarrow> jsval" where
  "maskPAN (JStr panNumber) =
     (if panNumber = [] then JNull
      else let cleaned = filter (\<lambda>c. \<not> is_space c) (toUpperCase panNumber)
           in if length cleaned < 4 then JStr ''XXXX''
              else JStr (''XXXXX'' @ slice_last4 cleaned))"
| "maskPAN _ = JNull"

fun maskAadhaar :: "jsval \<Rightarrow> jsval" where
  "maskAadhaar (JStr aadhaarNumber) =
     (if aadhaarNumber = [] then JNull
      else let cleaned = filter is_digit aadhaarNumber
           in if length cleaned < 4 then JStr ''XXXX XXXX XXXX''
              else JStr (''XXXX XXXX '' @ slice_last4 cleaned))"
| "maskAadhaar _ = JNull"

text \<open>
  The store: the own properties of the object at each address, and the next free
  address. An absent property reads as \<^verbatim>\<open>undefined\<close>.
\<close>

type_synonym js_object = "string \<Rightarrow> jsval option"

record js_heap =
  objs :: "nat \<Rightarrow> js_object"
  next_ref :: nat

definition get_prop :: "js_heap \<Rightarrow> nat \<Rightarrow> string \<Rightarrow> jsval" where
  "get_prop h r k = (case objs h r k of None \<Rightarrow> JUndefined | Some v \<Rightarrow> v)"

definition set_prop :: "js_heap \<Rightarrow> nat \<Rightarrow> string \<Rightarrow> jsval \<Rightarrow> js_heap" where
  "set_prop h r k v = h\<lparr>objs := (objs h)(r := (objs h r)(k \<mapsto> v))\<rparr>"

text \<open>\<^verbatim>\<open>{ ...employee }\<close>: a new object with the own properties of \<open>employee\<close>.\<close>

definition spread_copy :: "js_heap \<Rightarrow> nat \<Rightarrow> nat \<times> js_heap" where
  "spread_copy h r = (next_ref h, h\<lparr>objs := (objs h)(next_ref h := objs h r), next_ref := Suc (next_ref h)\<rparr>)"

definition null_if_defined :: "js_heap \<Rightarrow> nat \<Rightarrow> string \<Rightarrow> js_heap" where
  "null_if_defined h r k = (if get_prop h r k \<noteq> JUndefined then set_prop h r k JNull else h)"

text \<open>
  \<open>employee\<close> is \<open>None\<close> for \<^verbatim>\<open>null\<close> or \<^verbatim>\<open>undefined\<close> and the address of the record
  otherwise; the result is the returned value and the store after the call.
\<close>

definition maskEmployeeData :: "js_heap \<Rightarrow> nat option \<Rightarrow> bool \<Rightarrow> nat option \<times> js_heap" where
  "maskEmployeeData h employee isHR =
     (case employee of
        None \<Rightarrow> (None, h)
      | Some e \<Rightarrow>
          let (masked, h0) = spread_copy h e in
          if \<not> isHR then
            let h1 = set_prop h0 masked ''bank_account_number''
                       (maskBankAccount (get_prop h0 e ''bank_account_number''));
                h2 = set_prop h1 masked ''bank_ifsc''
                       (if truthy (get_prop h1 e ''bank_ifsc'') then JStr ''XXXX'' else JNull);
                h3 = set_prop h2 masked ''bank_name''
                       (if truthy (get_prop h2 e ''bank_name'') then JStr ''****'' else JNull);
                h4 = set_prop h3 masked ''pan_number'' (maskPAN (get_prop h3 e ''pan_number''));
                h5 = set_prop h4 masked ''aadhaar_number'' (maskAadhaar (get_prop h4 e ''aadhaar_number''));
                h6 = null_if_defined h5 masked ''ctc'';
                h7 = null_if_defined h6 masked ''basic_salary'';
                h8 = null_if_defined h7 masked ''gross_salary'';
                h9 = null_if_defined h8 masked ''net_salary''
            in (Some masked, h9)
          else (Some masked, h0))"

text \<open>
  The properties of the masked copy as a function of the properties of the record, for
  a caller that is not HR: \<open>rd\<close> reads a property of an object, \<open>nullify\<close> is the
  assignment of \<^verbatim>\<open>null\<close> to a property that is not \<^verbatim>\<open>undefined\<close>.
\<close>

definition rd :: "js_object \<Rightarrow> string \<Rightarrow> jsval" where
  "rd obj k = (case obj k of None \<Rightarrow> JUndefined | Some v \<Rightarrow> v)"

definition nullify :: "string \<Rightarrow> js_object \<Rightarrow> js_object" where
  "nullify k obj = (if rd obj k \<noteq> JUndefined then obj(k \<mapsto> JNull) else obj)"

definition masked_object :: "js_object \<Rightarrow> js_object" where
  "masked_object obj =
     nullify ''net_salary'' (nullify ''gross_salary'' (nullify ''basic_salary'' (nullify ''ctc''
       (obj(''bank_account_number'' \<mapsto> maskBankAccount (rd obj ''bank_account_number''),
            ''bank_ifsc'' \<mapsto> (if truthy (rd obj ''bank_ifsc'') then JStr ''XXXX'' else JNull),
            ''bank_name'' \<mapsto> (if truthy (rd obj ''bank_name'') then JStr ''****'' else JNull),
            ''pan_number'' \<mapsto> maskPAN (rd obj ''pan_number''),
            ''aadhaar_number'' \<mapsto> maskAadhaar (rd obj ''aadhaar_number''))))))"

text \<open>
  A PAN value that masks to the short placeholder: a non-empty string with fewer than
  four characters once upper-cased and stripped of white space.
\<close>

definition short_pan :: "jsval \<Rightarrow> bool" where
  "short_pan v \<longleftrightarrow>
     (case v of JStr s \<Rightarrow> s \<noteq> [] \<and> length (filter (\<lambda>c. \<not> is_space c) (toUpperCase s)) < 4 | _ \<Rightarrow> False)"

section \<open>SSO verification: verifyHrSsoToken\<close>

definition adminSet :: "string list" where
  "adminSet = [''CEO'', ''Admin'', ''HR'', ''ceo'', ''admin'', ''hr'']"

definition mapHrToPayrollRole :: "string list \<Rightarrow> string" where
  "mapHrToPayrollRole hrRoles =
     (if list_ex (\<lambda>role. role \<in> set adminSet) hrRoles then ''payroll_admin'' else ''payroll_employee'')"

text \<open>The claims of a verified token; \<open>None\<close> is a claim the token does not carry.\<close>

record sso_payload =
  p_iss :: "string option"
  p_aud :: "string option"
  p_exp :: "int option"
  p_sub :: "string option"
  p_org_id :: "string option"
  p_email :: "string option"
  p_name :: "string option"
  p_roles :: "string list option"
  p_payroll_role :: "string option"

text \<open>What \<^verbatim>\<open>jwt.verify(token, secret)\<close> answers: the payload or the error it throws.\<close>

datatype jwt_result = Verified sso_payload | TokenExpiredError | JsonWebTokenError | OtherJwtError string

record hr_user =
  hu_hrUserId :: string
  hu_orgId :: string
  hu_email :: string
  hu_name :: string
  hu_roles :: "string list"
  hu_payrollRole :: string

text \<open>The middleware ends in a response (status, error) or in \<^verbatim>\<open>next()\<close> with \<^verbatim>\<open>req.hrUser\<close> set.\<close>

datatype sso_outcome = Respond nat string | Next hr_user

definition falsy_str :: "string option \<Rightarrow> bool" where
  "falsy_str v \<longleftrightarrow> v = None \<or> v = Some []"

definition str_or :: "string option \<Rightarrow> string \<Rightarrow> string" where
  "str_or v d = (case v of None \<Rightarrow> d | Some s \<Rightarrow> if s = [] then d else s)"

definition to_lower_char :: "char \<Rightarrow> char" where
  "to_lower_char c =
     (case map_of (zip ''ABCDEFGHIJKLMNOPQRSTUVWXYZ'' ''abcdefghijklmnopqrstuvwxyz'') c of
        None \<Rightarrow> c | Some l \<Rightarrow> l)"

definition toLowerCase :: "string \<Rightarrow> string" where
  "toLowerCase s = map to_lower_char s"

definition js_trim :: "string \<Rightarrow> string" where
  "js_trim s = rev (dropWhile is_space (rev (dropWhile is_space s)))"

text \<open>
  The middleware from the token on. \<open>token\<close> is the string read from the query or the
  authorization header (empty when neither is there), \<open>secret\<close> the first configured
  secret of the environment (\<open>None\<close>: none is set), \<open>verify\<close> the answer of
  \<^verbatim>\<open>jwt.verify\<close> and \<open>now\<close> the clock in seconds.
\<close>

definition verifyHrSsoToken :: "string \<Rightarrow> string option \<Rightarrow> jwt_result \<Rightarrow> int \<Rightarrow> sso_outcome" where
  "verifyHrSsoToken token secret verify now =
     (if token = [] then Respond 401 ''SSO token required''
      else if str_or secret ''your-shared-secret-key'' = ''your-shared-secret-key''
        then Respond 500 ''SSO configuration error''
      else case verify of
          TokenExpiredError \<Rightarrow> Respond 401 ''Token expired''
        | JsonWebTokenError \<Rightarrow> Respond 401 ''Invalid token''
        | OtherJwtError msg \<Rightarrow> Respond 500 ''SSO verification failed''
        | Verified payload \<Rightarrow>
            if p_iss payload \<noteq> Some ''hr-app'' then Respond 401 ''Invalid token issuer''
            else if p_aud payload \<noteq> Some ''payroll-app'' then Respond 401 ''Invalid token audience''
            else if (case p_exp payload of None \<Rightarrow> False | Some e \<Rightarrow> e \<noteq> 0 \<and> e < now)
              then Respond 401 ''Token expired''
            else
              (let roles = (case p_roles payload of None \<Rightarrow> [] | Some rs \<Rightarrow> rs);
                   payrollRole = str_or (p_payroll_role payload) (mapHrToPayrollRole roles)
               in (case (p_sub payload, p_org_id payload, p_email payload) of
                     (Some hrUserId, Some orgId, Some email) \<Rightarrow>
                       (if hrUserId = [] \<or> orgId = [] \<or> email = [] then Respond 401 ''Invalid token claims''
                        else Next \<lparr>hu_hrUserId = hrUserId, hu_orgId = orgId,
                                   hu_email = js_trim (toLowerCase email),
                                   hu_name = str_or (p_name payload) email,
                                   hu_roles = roles, hu_payrollRole = payrollRole\<rparr>)
                   | _ \<Rightarrow> Respond 401 ''Invalid token claims'')))"

text \<open>
  The claim's own words: a role name that is CEO, Admin or HR under case-insensitive
  comparison.
\<close>

definition matches_ci :: "string \<Rightarrow> bool" where
  "matches_ci role \<longleftrightarrow> toLowerCase role \<in> set [''ceo'', ''admin'', ''hr'']"

section \<open>Example data\<close>



definition ex_cycle :: payroll_cycle where
  "ex_cycle = \<lparr>pc_id = ''c1'', pc_tenant_id = ''t1'', pc_month = 4, pc_year = 2025,
                pc_payday = Some 30, pc_status = Some Draft, pc_total_employees = Some 1,
                pc_total_amount = Some 0, pc_approved_by = None, pc_created_by = None\<rparr>"

definition ex_employee :: employee where
  "ex_employee = \<lparr>emp_id = ''e1'', emp_tenant_id = ''t1'', emp_employee_code = ''E001'',
                   emp_full_name = ''Asha'', emp_email = ''asha@example.com''\<rparr>"

definition ex_compensation :: compensation_structure where
  "ex_compensation = \<lparr>cs_basic_salary = 12000, cs_hra = Some 6000, cs_special_allowance = Some 3000\<rparr>"

definition ex_preview_db :: preview_db where
  "ex_preview_db = \<lparr>pdb_cycles = [ex_cycle], pdb_settings = [], pdb_leave_requests = [],
                     pdb_attendance_records = []\<rparr>"

definition ex_preview_item :: preview_item where
  "ex_preview_item = preview_item_of [] [] ''t1'' ex_cycle (default_settings ''t1'') ex_employee ex_compensation"


definition ex_completed_cycle :: payroll_cycle where
  "ex_completed_cycle = ex_cycle\<lparr>pc_id := ''c2'', pc_month := 3, pc_status := Some Completed\<rparr>"

definition ex_approved_cycle :: payroll_cycle where
  "ex_approved_cycle = ex_cycle\<lparr>pc_id := ''c3'', pc_month := 5, pc_status := Some Approved\<rparr>"

definition ex_lifecycle_db :: payroll_db where
  "ex_lifecycle_db = \<lparr>cycles = [ex_cycle, ex_completed_cycle, ex_approved_cycle], audit_logs = []\<rparr>"








definition ex_heap :: js_heap where
  "ex_heap = \<lparr>objs = (\<lambda>_. Map.empty)(0 := [''pan_number'' \<mapsto> JStr ''AB'', ''ctc'' \<mapsto> JNum 900000]),
              next_ref = 1\<rparr>"

definition ex_heap_long :: js_heap where
  "ex_heap_long = \<lparr>objs = (\<lambda>_. Map.empty)(0 := [''pan_number'' \<mapsto> JStr ''abcde1234f'',
                                                 ''bank_account_number'' \<mapsto> JStr ''0012-3456-789'',
                                                 ''ctc'' \<mapsto> JNum 900000]),
                   next_ref = 1\<rparr>"

definition ex_sso_payload :: sso_payload where
  "ex_sso_payload =
     \<lparr>p_iss = Some ''hr-app'', p_aud = Some ''payroll-app'', p_exp = Some 2000,
      p_sub = Some ''42'', p_org_id = Some ''org-1'', p_email = Some ''Asha@Example.com'',
      p_name = None, p_roles = Some [''ADMIN''], p_payroll_role = None\<rparr>"

definition ex_sso_payload_hr :: sso_payload where
  "ex_sso_payload_hr = ex_sso_payload\<lparr>p_roles := Some [''employee'', ''HR'']\<rparr>"

section \<open>Loss-of-pay days and paid days\<close>










section \<open>Statutory deductions of the preview\<close>

lemma preview_loop_items:
  "item \<in> set (preview_loop lrs ars t cycle settings compResult emps) \<Longrightarrow>
   \<exists>employee compensation. item = preview_item_of lrs ars t cycle settings employee compensation"
  by (induction emps) (auto split: list.splits)

lemma preview_route_items:
  assumes "preview_route db emps compResult cid t = Inr items" "item \<in> set items"
  shows "\<exists>cycle employee compensation.
           item = preview_item_of (pdb_leave_requests db) (pdb_attendance_records db) t cycle
                    (settings_for (pdb_settings db) t) employee compensation"
  using assms preview_loop_items unfolding preview_route_def
  by (fastforce split: list.splits)

lemma esi_of_item:
  "pv_esi_deduction (preview_item_of lrs ars t cycle settings employee compensation)
   = (if pv_gross_salary (preview_item_of lrs ars t cycle settings employee compensation) \<le> 21000
      then pv_gross_salary (preview_item_of lrs ars t cycle settings employee compensation) * (3 / 4) / 100
      else 0)"
  by (simp add: preview_item_of_def Let_def)

lemma tds_of_item:
  "pv_tds_deduction (preview_item_of lrs ars t cycle settings employee compensation)
   = (if pv_gross_salary (preview_item_of lrs ars t cycle settings employee compensation) * 12
           > js_Number (ps_tds_threshold settings)
      then (pv_gross_salary (preview_item_of lrs ars t cycle settings employee compensation) * 12
              - js_Number (ps_tds_threshold settings)) * 5 / 100 / 12
      else 0)"
  by (simp add: preview_item_of_def Let_def)

lemma ex_preview_route:
  "preview_route ex_preview_db [ex_employee] (\<lambda>_. [ex_compensation]) ''c1'' ''t1'' = Inr [ex_preview_item]"
  by (simp add: preview_route_def ex_preview_db_def ex_cycle_def ex_preview_item_def settings_for_def)

lemma ex_lop: "calculateLopAndPaidDays [] [] ''t1'' ''e1'' 4 2025
   = \<lparr>lopDays = 0, paidDays = 30, totalWorkingDays = 30\<rparr>"
  by (simp add: calculateLopAndPaidDays_def Let_def leave_lop_query_def attendance_lop_query_def
        js_Date_last_day_def days_in_month_index_def)

lemma ex_gross: "pv_gross_salary ex_preview_item = 21000"
  by (simp add: ex_preview_item_def preview_item_of_def Let_def ex_lop ex_cycle_def ex_employee_def
        ex_compensation_def js_or_num_def js_Number_def)

text \<open>
  Claim C2. For every line item of the preview, whose \<open>gross_salary\<close> is the adjusted
  gross, the ESI deduction is \<open>adjustedGross \<times> 0.75 / 100\<close> if and only if
  \<open>adjustedGross \<le> 21000\<close>, the bound included, and it is 0 when
  \<open>adjustedGross > 21000\<close>.
\<close>

theorem preview_esi:
  assumes "preview_route db emps compResult cid t = Inr items" "item \<in> set items"
  shows "(pv_esi_deduction item = pv_gross_salary item * (75 / 100) / 100 \<longleftrightarrow> pv_gross_salary item \<le> 21000)
       \<and> (pv_gross_salary item > 21000 \<longrightarrow> pv_esi_deduction item = 0)"
proof -
  obtain cycle employee compensation where
    "item = preview_item_of (pdb_leave_requests db) (pdb_attendance_records db) t cycle
              (settings_for (pdb_settings db) t) employee compensation"
    using preview_route_items[OF assms] by blast
  then have e: "pv_esi_deduction item
      = (if pv_gross_salary item \<le> 21000 then pv_gross_salary item * (3 / 4) / 100 else 0)"
    using esi_of_item by simp
  show ?thesis
  proof (cases "pv_gross_salary item \<le> 21000")
    case True
    then show ?thesis using e by simp
  next
    case False
    then have "pv_gross_salary item > 0" by simp
    then show ?thesis using e False by simp
  qed
qed

theorem preview_esi_witness:
  "pv_gross_salary ex_preview_item = 21000 \<and> pv_esi_deduction ex_preview_item = 315 / 2"
  using preview_esi[OF ex_preview_route, of ex_preview_item] ex_gross by simp

text \<open>
  Claim C3. For every line item of the preview, with \<open>threshold\<close> the
  \<open>tds_threshold\<close> of the tenant's settings, the TDS deduction is
  \<open>((adjustedGross \<times> 12 - threshold) \<times> 5%) / 12\<close> when \<open>adjustedGross \<times> 12\<close> is strictly
  above the threshold and 0 otherwise; an annual income equal to the threshold gives 0.
\<close>

theorem preview_tds:
  assumes "preview_route db emps compResult cid t = Inr items" "item \<in> set items"
    and "threshold = js_Number (ps_tds_threshold (settings_for (pdb_settings db) t))"
  shows "(pv_gross_salary item * 12 > threshold \<longrightarrow>
            pv_tds_deduction item = ((pv_gross_salary item * 12 - threshold) * (5 / 100)) / 12)
       \<and> (pv_gross_salary item * 12 \<le> threshold \<longrightarrow> pv_tds_deduction item = 0)
       \<and> (pv_gross_salary item * 12 = threshold \<longrightarrow> pv_tds_deduction item = 0)"
proof -
  obtain cycle employee compensation where
    "item = preview_item_of (pdb_leave_requests db) (pdb_attendance_records db) t cycle
              (settings_for (pdb_settings db) t) employee compensation"
    using preview_route_items[OF assms(1,2)] by blast
  then have e: "pv_tds_deduction item
      = (if pv_gross_salary item * 12 > threshold
         then (pv_gross_salary item * 12 - threshold) * 5 / 100 / 12 else 0)"
    using tds_of_item assms(3) by simp
  show ?thesis using e by simp
qed

theorem preview_tds_witness:
  "pv_gross_salary ex_preview_item * 12 = 252000 \<and> pv_tds_deduction ex_preview_item = 25 / 3"
  using preview_tds[OF ex_preview_route, of ex_preview_item 250000] ex_gross
  by (simp add: settings_for_def ex_preview_db_def default_settings_def js_Number_def)

section \<open>The cycle lifecycle\<close>

lemma filter_unique_id:
  assumes "distinct (map pc_id rows)" "c \<in> set rows" "pc_tenant_id c = t"
  shows "filter (\<lambda>x. pc_id x = pc_id c \<and> pc_tenant_id x = t) rows = [c]"
  using assms
proof (induction rows)
  case Nil
  then show ?case by simp
next
  case (Cons r rows)
  show ?case
  proof (cases "r = c")
    case True
    then have "pc_id c \<notin> pc_id ` set rows" using Cons.prems by simp
    then have "\<forall>x \<in> set rows. pc_id x \<noteq> pc_id c" by (metis imageI)
    then have "filter (\<lambda>x. pc_id x = pc_id c \<and> pc_tenant_id x = t) rows = []"
      by (simp add: filter_empty_conv)
    then show ?thesis using True Cons.prems by simp
  next
    case False
    then have in_rows: "c \<in> set rows" using Cons.prems by simp
    have "pc_id r \<notin> pc_id ` set rows" using Cons.prems by simp
    then have "pc_id r \<noteq> pc_id c" using in_rows by (metis imageI)
    then show ?thesis using Cons in_rows by simp
  qed
qed

text \<open>
  Claim C5. With the cycle ids distinct (the primary key), processing the cycle \<open>c\<close> of
  the tenant succeeds, and sets its status to processing, when the status of \<open>c\<close> is
  approved; in any other status it fails with status 400 and a message that names the
  current status, and the database is left as it was.
\<close>

theorem process_only_approved:
  assumes "distinct (map pc_id (cycles db))"
    and "c \<in> set (cycles db)" "pc_id c = cycleId" "pc_tenant_id c = tenantId"
  shows "(pc_status c = Some Approved \<longrightarrow>
            fst (process_route userId tenantId cycleId db) = Inr ''Payroll processing started''
          \<and> c\<lparr>pc_status := Some Processing\<rparr> \<in> set (cycles (snd (process_route userId tenantId cycleId db))))
       \<and> (pc_status c \<noteq> Some Approved \<longrightarrow>
            fst (process_route userId tenantId cycleId db)
              = Inl (400, ''Cannot process payroll. Current status is '' @ [CHR 0x27]
                          @ status_label (pc_status c) @ [CHR 0x27]
                          @ ''. Only '' @ [CHR 0x27] @ ''approved'' @ [CHR 0x27] @ '' payroll can be processed.'')
          \<and> snd (process_route userId tenantId cycleId db) = db)"
proof -
  have f: "filter (\<lambda>x. pc_id x = cycleId \<and> pc_tenant_id x = tenantId) (cycles db) = [c]"
    using filter_unique_id[OF assms(1,2,4)] assms(3) by simp
  have m: "c\<lparr>pc_status := Some Processing\<rparr>
      \<in> set (map (\<lambda>x. if pc_id x = cycleId \<and> pc_tenant_id x = tenantId
                          then x\<lparr>pc_status := Some Processing\<rparr> else x) (cycles db))"
    using assms(2,3,4) by force
  show ?thesis
    using m by (simp add: process_route_def f update_cycles_def auditPayroll_def)
qed

theorem process_only_approved_witness:
  "fst (process_route ''u1'' ''t1'' ''c2'' ex_lifecycle_db)
     = Inl (400, ''Cannot process payroll. Current status is '' @ [CHR 0x27] @ ''completed'' @ [CHR 0x27]
                 @ ''. Only '' @ [CHR 0x27] @ ''approved'' @ [CHR 0x27] @ '' payroll can be processed.'')
   \<and> snd (process_route ''u1'' ''t1'' ''c2'' ex_lifecycle_db) = ex_lifecycle_db
   \<and> fst (process_route ''u1'' ''t1'' ''c3'' ex_lifecycle_db) = Inr ''Payroll processing started''
   \<and> ex_approved_cycle\<lparr>pc_status := Some Processing\<rparr>
        \<in> set (cycles (snd (process_route ''u1'' ''t1'' ''c3'' ex_lifecycle_db)))"
proof -
  have d: "distinct (map pc_id (cycles ex_lifecycle_db))"
    by (simp add: ex_lifecycle_db_def ex_cycle_def ex_completed_cycle_def ex_approved_cycle_def)
  have c2: "ex_completed_cycle \<in> set (cycles ex_lifecycle_db)" "pc_id ex_completed_cycle = ''c2''"
    "pc_tenant_id ex_completed_cycle = ''t1''" "pc_status ex_completed_cycle = Some Completed"
    by (simp_all add: ex_lifecycle_db_def ex_cycle_def ex_completed_cycle_def)
  have c3: "ex_approved_cycle \<in> set (cycles ex_lifecycle_db)" "pc_id ex_approved_cycle = ''c3''"
    "pc_tenant_id ex_approved_cycle = ''t1''" "pc_status ex_approved_cycle = Some Approved"
    by (simp_all add: ex_lifecycle_db_def ex_cycle_def ex_approved_cycle_def)
  show ?thesis
    using process_only_approved[OF d c2(1,2,3), of "''u1''"]
          process_only_approved[OF d c3(1,2,3), of "''u1''"] c2(4) c3(4)
    by simp
qed

text \<open>
  Claim C9. Submit, approve and reject do not look at the current status: for a cycle
  \<open>c\<close> of the tenant in any status, submit answers success and sets the status to
  pending_approval, approve sets it to approved (and records the approver), reject sets
  it to draft.
\<close>

theorem lifecycle_unconditional:
  assumes "c \<in> set (cycles db)" "pc_id c = cycleId" "pc_tenant_id c = tenantId"
  shows "fst (submit_route tenantId cycleId db) = Inr ''Payroll submitted for approval''
       \<and> c\<lparr>pc_status := Some PendingApproval\<rparr> \<in> set (cycles (snd (submit_route tenantId cycleId db)))
       \<and> fst (approve_route userId tenantId cycleId db) = Inr ''Payroll approved''
       \<and> c\<lparr>pc_status := Some Approved, pc_approved_by := Some userId\<rparr>
            \<in> set (cycles (snd (approve_route userId tenantId cycleId db)))
       \<and> fst (reject_route tenantId cycleId db) = Inr ''Payroll rejected''
       \<and> c\<lparr>pc_status := Some Draft\<rparr> \<in> set (cycles (snd (reject_route tenantId cycleId db)))"
proof -
  have m: "f c \<in> set (map (\<lambda>x. if pc_id x = cycleId \<and> pc_tenant_id x = tenantId then f x else x) (cycles db))"
    for f :: "payroll_cycle \<Rightarrow> payroll_cycle"
    using assms by force
  show ?thesis
    unfolding submit_route_def approve_route_def reject_route_def update_cycles_def
    using m[of "\<lambda>c. c\<lparr>pc_status := Some PendingApproval\<rparr>"]
          m[of "\<lambda>c. c\<lparr>pc_status := Some Approved, pc_approved_by := Some userId\<rparr>"]
          m[of "\<lambda>c. c\<lparr>pc_status := Some Draft\<rparr>"]
    by simp
qed

theorem lifecycle_unconditional_witness:
  "pc_status ex_completed_cycle = Some Completed
   \<and> ex_completed_cycle\<lparr>pc_status := Some PendingApproval\<rparr>
        \<in> set (cycles (snd (submit_route ''t1'' ''c2'' ex_lifecycle_db)))
   \<and> ex_completed_cycle\<lparr>pc_status := Some Approved, pc_approved_by := Some ''u1''\<rparr>
        \<in> set (cycles (snd (approve_route ''u1'' ''t1'' ''c2'' ex_lifecycle_db)))
   \<and> ex_completed_cycle\<lparr>pc_status := Some Draft\<rparr>
        \<in> set (cycles (snd (reject_route ''t1'' ''c2'' ex_lifecycle_db)))"
proof -
  have c2: "ex_completed_cycle \<in> set (cycles ex_lifecycle_db)" "pc_id ex_completed_cycle = ''c2''"
    "pc_tenant_id ex_completed_cycle = ''t1''"
    by (simp_all add: ex_lifecycle_db_def ex_cycle_def ex_completed_cycle_def)
  have s: "pc_status ex_completed_cycle = Some Completed"
    by (simp add: ex_completed_cycle_def)
  show ?thesis
    using lifecycle_unconditional[OF c2, of "''u1''"] s by simp
qed

section \<open>Uniqueness of the cycle of a month\<close>







section \<open>Own payslips\<close>





section \<open>Masking\<close>

lemma get_prop_rd: "get_prop h r k = rd (objs h r) k"
  by (simp add: get_prop_def rd_def)

lemma objs_set_prop: "objs (set_prop h r k v) = (objs h)(r := (objs h r)(k \<mapsto> v))"
  by (simp add: set_prop_def)

lemma next_ref_set_prop: "next_ref (set_prop h r k v) = next_ref h"
  by (simp add: set_prop_def)

lemma objs_null_if_defined: "objs (null_if_defined h r k) = (objs h)(r := nullify k (objs h r))"
  by (simp add: null_if_defined_def nullify_def get_prop_rd objs_set_prop)

lemma next_ref_null_if_defined: "next_ref (null_if_defined h r k) = next_ref h"
  by (simp add: null_if_defined_def next_ref_set_prop)

lemma maskEmployeeData_objs:
  assumes "e \<noteq> next_ref h"
  shows "fst (maskEmployeeData h (Some e) False) = Some (next_ref h)"
    and "objs (snd (maskEmployeeData h (Some e) False)) = (objs h)(next_ref h := masked_object (objs h e))"
    and "next_ref (snd (maskEmployeeData h (Some e) False)) = Suc (next_ref h)"
  using assms
  by (simp_all add: maskEmployeeData_def spread_copy_def Let_def get_prop_rd objs_set_prop
        objs_null_if_defined next_ref_null_if_defined next_ref_set_prop masked_object_def)

lemma slice_last4_length: "4 \<le> length s \<Longrightarrow> length (slice_last4 s) = 4"
  by (simp add: slice_last4_def)

lemma slice_last4_set: "set (slice_last4 s) \<subseteq> set s"
  unfolding slice_last4_def by (rule set_drop_subset)

lemma slice_last4_append: "length t = 4 \<Longrightarrow> slice_last4 (p @ t) = t"
  by (simp add: slice_last4_def)

lemma filter_all: "\<forall>x \<in> set xs. P x \<Longrightarrow> filter P xs = xs"
  by (induction xs) auto

lemma digits_last4:
  assumes "4 \<le> length (filter is_digit s)"
  shows "filter is_digit (slice_last4 (filter is_digit s)) = slice_last4 (filter is_digit s)"
proof (rule filter_all)
  show "\<forall>x\<in>set (slice_last4 (filter is_digit s)). is_digit x"
    using slice_last4_set[of "filter is_digit s"] by auto
qed

lemma maskBankAccount_idem: "maskBankAccount (maskBankAccount v) = maskBankAccount v"
proof (cases v)
  case (JStr s)
  show ?thesis
  proof (cases "s = [] \<or> length (filter is_digit s) < 4")
    case True
    then show ?thesis using JStr by (auto simp: is_digit_def Let_def)
  next
    case False
    then have l: "4 \<le> length (filter is_digit s)" by simp
    have f: "filter is_digit (''...-XX-'' @ slice_last4 (filter is_digit s)) = slice_last4 (filter is_digit s)"
      using digits_last4[OF l] by (simp add: is_digit_def)
    show ?thesis
      using JStr False f slice_last4_length[OF l] slice_last4_append[of "slice_last4 (filter is_digit s)" "[]"]
      by (simp add: Let_def)
  qed
qed simp_all

lemma maskAadhaar_idem: "maskAadhaar (maskAadhaar v) = maskAadhaar v"
proof (cases v)
  case (JStr s)
  show ?thesis
  proof (cases "s = [] \<or> length (filter is_digit s) < 4")
    case True
    then show ?thesis using JStr by (auto simp: is_digit_def Let_def)
  next
    case False
    then have l: "4 \<le> length (filter is_digit s)" by simp
    have f: "filter is_digit (''XXXX XXXX '' @ slice_last4 (filter is_digit s)) = slice_last4 (filter is_digit s)"
      using digits_last4[OF l] by (simp add: is_digit_def)
    show ?thesis
      using JStr False f slice_last4_length[OF l] slice_last4_append[of "slice_last4 (filter is_digit s)" "[]"]
      by (simp add: Let_def)
  qed
qed simp_all

lemma to_upper_char_idem: "to_upper_char (to_upper_char c) = to_upper_char c"
  by (simp add: to_upper_char_def)

lemma maskPAN_clean:
  assumes "s \<noteq> []" "toUpperCase s = s" "filter (\<lambda>c. \<not> is_space c) s = s" "4 \<le> length s"
  shows "maskPAN (JStr s) = JStr (''XXXXX'' @ slice_last4 s)"
  using assms by (simp add: Let_def)

lemma maskPAN_idem:
  assumes "\<not> short_pan v"
  shows "maskPAN (maskPAN v) = maskPAN v"
proof (cases v)
  case (JStr s)
  show ?thesis
  proof (cases "s = []")
    case True
    then show ?thesis using JStr by simp
  next
    case False
    define cleaned where "cleaned = filter (\<lambda>c. \<not> is_space c) (toUpperCase s)"
    have l: "4 \<le> length cleaned"
      using assms JStr False by (simp add: short_pan_def cleaned_def)
    define t where "t = slice_last4 cleaned"
    have t4: "length t = 4" using slice_last4_length[OF l] by (simp add: t_def)
    have sub: "set t \<subseteq> set cleaned" unfolding t_def by (rule slice_last4_set)
    have up: "\<forall>x \<in> set t. to_upper_char x = x"
      using sub to_upper_char_idem by (auto simp: cleaned_def toUpperCase_def)
    have ns: "\<forall>x \<in> set t. \<not> is_space x"
      using sub by (auto simp: cleaned_def)
    have u: "toUpperCase (''XXXXX'' @ t) = ''XXXXX'' @ t"
      using up by (simp add: toUpperCase_def to_upper_char_def map_idI)
    have f: "filter (\<lambda>c. \<not> is_space c) (''XXXXX'' @ t) = ''XXXXX'' @ t"
      using filter_all[of t "\<lambda>c. \<not> is_space c"] ns by (simp add: is_space_def)
    have first: "maskPAN v = JStr (''XXXXX'' @ t)"
      using JStr False l by (simp add: Let_def cleaned_def[symmetric] t_def)
    have second: "maskPAN (JStr (''XXXXX'' @ t)) = JStr (''XXXXX'' @ slice_last4 (''XXXXX'' @ t))"
      by (rule maskPAN_clean[OF _ u f]) (simp_all add: t4)
    have "slice_last4 (''XXXXX'' @ t) = t"
      by (rule slice_last4_append[OF t4])
    then have "maskPAN (JStr (''XXXXX'' @ t)) = JStr (''XXXXX'' @ t)"
      using second by (simp only:)
    then show ?thesis using first by (simp only:)
  qed
qed simp_all

lemma rd_upd: "rd (obj(k \<mapsto> v)) k' = (if k' = k then v else rd obj k')"
  by (simp add: rd_def)

lemma nullify_apply:
  "nullify k obj k' = (if k' = k \<and> rd obj k \<noteq> JUndefined then Some JNull else obj k')"
  by (simp add: nullify_def)

lemma rd_nullify:
  "rd (nullify k obj) k' = (if k' = k \<and> rd obj k \<noteq> JUndefined then JNull else rd obj k')"
  by (simp add: nullify_def rd_upd)

lemma masked_object_apply:
  "masked_object obj k =
     (if k = ''net_salary'' \<or> k = ''gross_salary'' \<or> k = ''basic_salary'' \<or> k = ''ctc''
        then (if rd obj k \<noteq> JUndefined then Some JNull else obj k)
      else if k = ''aadhaar_number'' then Some (maskAadhaar (rd obj k))
      else if k = ''pan_number'' then Some (maskPAN (rd obj k))
      else if k = ''bank_name'' then Some (if truthy (rd obj k) then JStr ''****'' else JNull)
      else if k = ''bank_ifsc'' then Some (if truthy (rd obj k) then JStr ''XXXX'' else JNull)
      else if k = ''bank_account_number'' then Some (maskBankAccount (rd obj k))
      else obj k)"
  unfolding masked_object_def nullify_apply rd_nullify rd_upd
  by simp

lemma rd_masked_object:
  "rd (masked_object obj) k =
     (if k = ''net_salary'' \<or> k = ''gross_salary'' \<or> k = ''basic_salary'' \<or> k = ''ctc''
        then (if rd obj k \<noteq> JUndefined then JNull else JUndefined)
      else if k = ''aadhaar_number'' then maskAadhaar (rd obj k)
      else if k = ''pan_number'' then maskPAN (rd obj k)
      else if k = ''bank_name'' then (if truthy (rd obj k) then JStr ''****'' else JNull)
      else if k = ''bank_ifsc'' then (if truthy (rd obj k) then JStr ''XXXX'' else JNull)
      else if k = ''bank_account_number'' then maskBankAccount (rd obj k)
      else rd obj k)"
  unfolding rd_def[of "masked_object obj"] masked_object_apply
  by (simp add: rd_def)

lemma masked_object_idem:
  assumes "\<not> short_pan (rd obj ''pan_number'')"
  shows "masked_object (masked_object obj) = masked_object obj"
proof (rule ext)
  fix k
  show "masked_object (masked_object obj) k = masked_object obj k"
    unfolding masked_object_apply[of "masked_object obj" k] rd_masked_object
    unfolding masked_object_apply[of obj]
    using assms
    by (simp add: maskBankAccount_idem maskAadhaar_idem maskPAN_idem)
qed

lemma maskEmployeeData_old_objects:
  assumes "e < next_ref h" "a < next_ref h"
  shows "objs (snd (maskEmployeeData h (Some e) isHR)) a = objs h a"
proof (cases isHR)
  case True
  then show ?thesis using assms by (simp add: maskEmployeeData_def spread_copy_def)
next
  case False
  have "e \<noteq> next_ref h" using assms(1) by simp
  from maskEmployeeData_objs(2)[OF this] show ?thesis using False assms(2) by simp
qed

text \<open>
  Claim C7, as amended. \<open>maskEmployeeData\<close> never changes an object that exists when it is
  called, whoever the caller is: it answers a new object (or the argument itself when
  that is \<^verbatim>\<open>null\<close>). Masking the masked copy again gives an object with the same
  properties as the copy, unless the PAN of the record is a non-empty string with fewer
  than four characters other than white space.
\<close>

theorem mask_idempotent_copy:
  assumes "e < next_ref h"
    and "maskEmployeeData h (Some e) False = (r1, h1)"
    and "maskEmployeeData h1 r1 False = (r2, h2)"
  shows "r1 = Some (next_ref h) \<and> r2 = Some (Suc (next_ref h))
       \<and> (\<forall>a < next_ref h. objs h1 a = objs h a \<and> objs h2 a = objs h a)
       \<and> (\<forall>a < next_ref h. objs (snd (maskEmployeeData h (Some e) isHR)) a = objs h a)
       \<and> maskEmployeeData h None isHR = (None, h)
       \<and> (\<not> short_pan (get_prop h e ''pan_number'')
            \<longrightarrow> objs h2 (Suc (next_ref h)) = objs h1 (next_ref h))"
proof -
  have ne: "e \<noteq> next_ref h" using assms(1) by simp
  have r1: "r1 = Some (next_ref h)"
    and o1: "objs h1 = (objs h)(next_ref h := masked_object (objs h e))"
    and n1: "next_ref h1 = Suc (next_ref h)"
    using maskEmployeeData_objs[OF ne] assms(2) by simp_all
  have ne2: "next_ref h \<noteq> next_ref h1" using n1 by simp
  have r2: "r2 = Some (Suc (next_ref h))"
    and o2: "objs h2 = (objs h1)(next_ref h1 := masked_object (objs h1 (next_ref h)))"
    using maskEmployeeData_objs[OF ne2] assms(3) r1 n1 by simp_all
  have old: "\<forall>a < next_ref h. objs h1 a = objs h a \<and> objs h2 a = objs h a"
    using o1 o2 n1 by simp
  have idem: "objs h2 (Suc (next_ref h)) = objs h1 (next_ref h)"
    if "\<not> short_pan (get_prop h e ''pan_number'')"
    using that o1 o2 n1 masked_object_idem[of "objs h e"] by (simp add: get_prop_rd)
  have any: "\<forall>a < next_ref h. objs (snd (maskEmployeeData h (Some e) isHR)) a = objs h a"
    using maskEmployeeData_old_objects[OF assms(1)] by blast
  have none: "maskEmployeeData h None isHR = (None, h)"
    by (simp add: maskEmployeeData_def)
  show ?thesis using r1 r2 old any none idem by blast
qed

lemma maskEmployeeData_pan:
  assumes "e \<noteq> next_ref h"
  shows "get_prop (snd (maskEmployeeData h (Some e) False)) (next_ref h) ''pan_number''
         = maskPAN (get_prop h e ''pan_number'')"
  by (simp add: get_prop_rd maskEmployeeData_objs(2)[OF assms] rd_masked_object del: maskPAN.simps)

lemma maskPAN_AB: "maskPAN (JStr ''AB'') = JStr ''XXXX''"
  by (simp add: toUpperCase_def to_upper_char_def is_space_def)

lemma maskPAN_XXXX: "maskPAN (JStr ''XXXX'') = JStr ''XXXXXXXXX''"
  by (simp add: toUpperCase_def to_upper_char_def is_space_def slice_last4_def)

text \<open>
  The claim as stated fails for a short PAN: \<^verbatim>\<open>'AB'\<close> is masked to the four-character
  placeholder \<^verbatim>\<open>'XXXX'\<close>, which the second masking reads as a PAN of four characters.
\<close>

theorem mask_idempotent_counterexample:
  "get_prop ex_heap 0 ''pan_number'' = JStr ''AB''
   \<and> fst (maskEmployeeData ex_heap (Some 0) False) = Some 1
   \<and> get_prop (snd (maskEmployeeData ex_heap (Some 0) False)) 1 ''pan_number'' = JStr ''XXXX''
   \<and> fst (maskEmployeeData (snd (maskEmployeeData ex_heap (Some 0) False)) (Some 1) False) = Some 2
   \<and> get_prop (snd (maskEmployeeData (snd (maskEmployeeData ex_heap (Some 0) False)) (Some 1) False))
        2 ''pan_number'' = JStr ''XXXXXXXXX''
   \<and> objs (snd (maskEmployeeData (snd (maskEmployeeData ex_heap (Some 0) False)) (Some 1) False)) 2
       \<noteq> objs (snd (maskEmployeeData ex_heap (Some 0) False)) 1"
proof -
  define h1 where "h1 = snd (maskEmployeeData ex_heap (Some 0) False)"
  define h2 where "h2 = snd (maskEmployeeData h1 (Some 1) False)"
  have p0: "get_prop ex_heap 0 ''pan_number'' = JStr ''AB''"
    by (simp add: ex_heap_def get_prop_def)
  have n0: "next_ref ex_heap = 1" by (simp add: ex_heap_def)
  then have ne: "(0::nat) \<noteq> next_ref ex_heap" by simp
  have f1: "fst (maskEmployeeData ex_heap (Some 0) False) = Some 1"
    and o1: "objs h1 = (objs ex_heap)(1 := masked_object (objs ex_heap 0))"
    and n1: "next_ref h1 = 2"
    using maskEmployeeData_objs[OF ne] n0 by (simp_all add: h1_def)
  have p1: "get_prop h1 1 ''pan_number'' = JStr ''XXXX''"
    using maskEmployeeData_pan[OF ne] p0 n0 maskPAN_AB by (simp only: h1_def)
  have ne1: "(1::nat) \<noteq> next_ref h1" using n1 by simp
  have f2: "fst (maskEmployeeData h1 (Some 1) False) = Some 2"
    and o2: "objs h2 = (objs h1)(2 := masked_object (objs h1 1))"
    using maskEmployeeData_objs[OF ne1] n1 by (simp_all add: h2_def)
  have p2: "get_prop h2 2 ''pan_number'' = JStr ''XXXXXXXXX''"
    using maskEmployeeData_pan[OF ne1] p1 n1 maskPAN_XXXX by (simp only: h2_def)
  have "objs h2 2 \<noteq> objs h1 1"
  proof
    assume "objs h2 2 = objs h1 1"
    then have "get_prop h2 2 ''pan_number'' = get_prop h1 1 ''pan_number''"
      by (simp add: get_prop_def)
    then show False using p1 p2 by simp
  qed
  then show ?thesis using p0 f1 p1 f2 p2 unfolding h1_def h2_def by simp
qed

lemma maskPAN_long: "maskPAN (JStr ''abcde1234f'') = JStr ''XXXXX234F''"
  by (simp add: toUpperCase_def to_upper_char_def is_space_def slice_last4_def)

theorem mask_idempotent_copy_witness:
  "(0::nat) < next_ref ex_heap_long
   \<and> \<not> short_pan (get_prop ex_heap_long 0 ''pan_number'')
   \<and> fst (maskEmployeeData ex_heap_long (Some 0) False) = Some 1
   \<and> fst (maskEmployeeData (snd (maskEmployeeData ex_heap_long (Some 0) False)) (Some 1) False) = Some 2
   \<and> objs (snd (maskEmployeeData (snd (maskEmployeeData ex_heap_long (Some 0) False)) (Some 1) False)) 2
       = objs (snd (maskEmployeeData ex_heap_long (Some 0) False)) 1
   \<and> objs (snd (maskEmployeeData (snd (maskEmployeeData ex_heap_long (Some 0) False)) (Some 1) False)) 0
       = objs ex_heap_long 0"
proof -
  have n: "next_ref ex_heap_long = 1" by (simp add: ex_heap_long_def)
  have p: "get_prop ex_heap_long 0 ''pan_number'' = JStr ''abcde1234f''"
    by (simp add: ex_heap_long_def get_prop_def)
  have s: "\<not> short_pan (get_prop ex_heap_long 0 ''pan_number'')"
    unfolding p by (simp add: short_pan_def toUpperCase_def is_space_def to_upper_char_def)
  have l: "(0::nat) < next_ref ex_heap_long" using n by simp
  obtain r1 h1 where m1: "maskEmployeeData ex_heap_long (Some 0) False = (r1, h1)"
    by (cases "maskEmployeeData ex_heap_long (Some 0) False")
  obtain r2 h2 where m2: "maskEmployeeData h1 r1 False = (r2, h2)"
    by (cases "maskEmployeeData h1 r1 False")
  show ?thesis
    using mask_idempotent_copy[OF l m1 m2] s l m1 m2 n by (simp add: numeral_2_eq_2)
qed

section \<open>Payroll role of an SSO user\<close>

lemma verify_next:
  assumes "verifyHrSsoToken token secret (Verified payload) now = Next u"
  shows "hu_roles u = (case p_roles payload of None \<Rightarrow> [] | Some rs \<Rightarrow> rs)"
    and "hu_payrollRole u = str_or (p_payroll_role payload) (mapHrToPayrollRole (hu_roles u))"
  using assms unfolding verifyHrSsoToken_def
  by (auto simp: Let_def split: if_splits option.splits)

text \<open>
  Claim C8, as amended. When the token asserts no payroll role and the middleware lets the
  request through, the payroll role of the user is payroll_admin if one of the asserted
  HR roles is exactly one of the six strings CEO, Admin, HR, ceo, admin, hr, and
  payroll_employee otherwise.
\<close>

theorem sso_role_exact:
  assumes "verifyHrSsoToken token secret (Verified payload) now = Next u"
    and "falsy_str (p_payroll_role payload)"
  shows "hu_roles u = (case p_roles payload of None \<Rightarrow> [] | Some rs \<Rightarrow> rs)
       \<and> ((\<exists>role \<in> set (hu_roles u). role \<in> {''CEO'', ''Admin'', ''HR'', ''ceo'', ''admin'', ''hr''})
            \<longrightarrow> hu_payrollRole u = ''payroll_admin'')
       \<and> (\<not> (\<exists>role \<in> set (hu_roles u). role \<in> {''CEO'', ''Admin'', ''HR'', ''ceo'', ''admin'', ''hr''})
            \<longrightarrow> hu_payrollRole u = ''payroll_employee'')"
proof -
  have s: "str_or (p_payroll_role payload) d = d" for d
    using assms(2) by (auto simp: falsy_str_def str_or_def)
  have a: "set adminSet = {''CEO'', ''Admin'', ''HR'', ''ceo'', ''admin'', ''hr''}"
    by (simp add: adminSet_def)
  have m: "hu_payrollRole u = mapHrToPayrollRole (hu_roles u)"
    using verify_next(2)[OF assms(1)] s by simp
  have "mapHrToPayrollRole rs
      = (if \<exists>role \<in> set rs. role \<in> {''CEO'', ''Admin'', ''HR'', ''ceo'', ''admin'', ''hr''}
         then ''payroll_admin'' else ''payroll_employee'')" for rs
    unfolding mapHrToPayrollRole_def list_ex_iff a by simp
  then show ?thesis using m verify_next(1)[OF assms(1)] by simp
qed

lemma ex_sso_next:
  "verifyHrSsoToken ''tok'' (Some ''s3cret'') (Verified ex_sso_payload) 1000
   = Next \<lparr>hu_hrUserId = ''42'', hu_orgId = ''org-1'', hu_email = ''asha@example.com'',
           hu_name = ''Asha@Example.com'', hu_roles = [''ADMIN''], hu_payrollRole = ''payroll_employee''\<rparr>"
  by (simp add: verifyHrSsoToken_def ex_sso_payload_def str_or_def Let_def mapHrToPayrollRole_def
        adminSet_def js_trim_def toLowerCase_def to_lower_char_def is_space_def)

text \<open>
  The claim as stated fails for another capitalisation: the role ADMIN matches Admin when
  case is ignored, and the derived role is payroll_employee.
\<close>

theorem sso_role_counterexample:
  "matches_ci ''ADMIN''
   \<and> p_payroll_role ex_sso_payload = None \<and> p_roles ex_sso_payload = Some [''ADMIN'']
   \<and> verifyHrSsoToken ''tok'' (Some ''s3cret'') (Verified ex_sso_payload) 1000
       = Next \<lparr>hu_hrUserId = ''42'', hu_orgId = ''org-1'', hu_email = ''asha@example.com'',
               hu_name = ''Asha@Example.com'', hu_roles = [''ADMIN''], hu_payrollRole = ''payroll_employee''\<rparr>"
proof -
  have "matches_ci ''ADMIN''"
    by (simp add: matches_ci_def toLowerCase_def to_lower_char_def)
  then show ?thesis using ex_sso_next by (simp add: ex_sso_payload_def)
qed

lemma ex_sso_hr_next:
  "verifyHrSsoToken ''tok'' (Some ''s3cret'') (Verified ex_sso_payload_hr) 1000
   = Next \<lparr>hu_hrUserId = ''42'', hu_orgId = ''org-1'', hu_email = ''asha@example.com'',
           hu_name = ''Asha@Example.com'', hu_roles = [''employee'', ''HR''], hu_payrollRole = ''payroll_admin''\<rparr>"
  by (simp add: verifyHrSsoToken_def ex_sso_payload_hr_def ex_sso_payload_def str_or_def Let_def
        mapHrToPayrollRole_def adminSet_def js_trim_def toLowerCase_def to_lower_char_def is_space_def)

theorem sso_role_exact_witness:
  "falsy_str (p_payroll_role ex_sso_payload_hr)
   \<and> verifyHrSsoToken ''tok'' (Some ''s3cret'') (Verified ex_sso_payload_hr) 1000
       = Next \<lparr>hu_hrUserId = ''42'', hu_orgId = ''org-1'', hu_email = ''asha@example.com'',
               hu_name = ''Asha@Example.com'', hu_roles = [''employee'', ''HR''],
               hu_payrollRole = ''payroll_admin''\<rparr>"
proof -
  have f: "falsy_str (p_payroll_role ex_sso_payload_hr)"
    by (simp add: falsy_str_def ex_sso_payload_hr_def ex_sso_payload_def)
  show ?thesis
    using sso_role_exact[OF ex_sso_hr_next f] f ex_sso_hr_next by simp
qed

end
